theory Spec2Isabelle
  imports Complex_Main
begin

section \<open>NumPy values: errors, arrays, floats\<close>

text \<open>
  The notebooks of the book compute with NumPy arrays of complex and real double-precision
  numbers. The model takes the numbers as the exact complex and real numbers (rounding is
  not modelled) and writes out what NumPy does at the edges: a shape mismatch or an
  out-of-range index raises, an empty or zero-mean sample gives the float \<open>nan\<close>.
\<close>

datatype error = ValueError | IndexError

definition bind_err :: "error + 'a \<Rightarrow> ('a \<Rightarrow> error + 'b) \<Rightarrow> error + 'b" where
  "bind_err m f = (case m of Inl e \<Rightarrow> Inl e | Inr a \<Rightarrow> f a)"

text \<open>
  A three-dimensional complex array is its shape and its entries; \<open>at3 a i j k\<close> is
  \<^verbatim>\<open>a[i, j, k]\<close> for indices inside the shape. The field maps \<^verbatim>\<open>b1_maps\<close> are
  such an array of shape \<^verbatim>\<open>(x, y, n_coils)\<close>, the virtual observation points \<^verbatim>\<open>vop\<close> another.
\<close>

record ndarray3 =
  dim0 :: nat
  dim1 :: nat
  dim2 :: nat
  at3 :: "nat \<Rightarrow> nat \<Rightarrow> nat \<Rightarrow> complex"

text \<open>
  A two-dimensional complex array whose rows are selected one by one (\<^verbatim>\<open>b1_roi\<close>) is the
  number of its columns and the list of its rows.
\<close>

record ndarray2 =
  ncols :: nat
  rows :: "complex list list"

text \<open>
  A float result that may be \<open>nan\<close> or \<open>inf\<close>. The sign of a zero divisor is not modelled,
  so the quotient of a positive number by zero is \<open>PosInf\<close>.
\<close>

datatype npfloat = Finite real | PosInf | NaN

section \<open>The combined field\<close>

text \<open>
  \<^verbatim>\<open>b1_maps @ weights\<close> with a three-dimensional left operand and a one-dimensional right
  operand: NumPy raises ValueError unless the last axis of the left operand is as long as
  the vector, and otherwise sums over that axis at every voxel.
\<close>

definition matmul_3v :: "ndarray3 \<Rightarrow> complex list \<Rightarrow> error + complex list list" where
  "matmul_3v a w =
     (if dim2 a \<noteq> length w then Inl ValueError
      else Inr (map (\<lambda>i. map (\<lambda>j. (\<Sum>k<dim2 a. at3 a i j k * w ! k)) [0..<dim1 a])
                  [0..<dim0 a]))"

text \<open>
  \<^verbatim>\<open>b1_roi @ w\<close> with a two-dimensional left operand: the same check on the number of
  columns, one dot product per row.
\<close>

definition matmul_2v :: "ndarray2 \<Rightarrow> complex list \<Rightarrow> error + complex list" where
  "matmul_2v a w =
     (if ncols a \<noteq> length w then Inl ValueError
      else Inr (map (\<lambda>r. (\<Sum>k<ncols a. r ! k * w ! k)) (rows a)))"

section \<open>The real parameterization of the weights\<close>

text \<open>
  Modelled from the spec: the module \<^verbatim>\<open>functions\<close>, which defines
  \<^verbatim>\<open>complex_to_vector\<close> and \<^verbatim>\<open>vector_to_complex\<close>, is not among the sources; the
  notebooks only call the two. The specification asks for 2N real parameters for N complex
  weights, magnitude and phase per element, and the note of the notebook says that "the
  shim weights phases and magnitudes are reshaped into a vector of length 2 x N_Tx". The
  encoding puts the N magnitudes first and the N phases after them; the decoding splits the
  vector in the middle.
\<close>

definition complex_to_vector :: "complex list \<Rightarrow> real list" where
  "complex_to_vector w = map cmod w @ map Arg w"

definition vector_to_complex :: "real list \<Rightarrow> complex list" where
  "vector_to_complex v =
     map2 (\<lambda>r p. of_real r * cis p) (take (length v div 2) v) (drop (length v div 2) v)"

section \<open>Coefficient of variation\<close>

text \<open>
  \<^verbatim>\<open>scipy.stats.variation\<close> of a one-dimensional sample: the population standard
  deviation (\<^verbatim>\<open>ddof=0\<close>) divided by the mean. NumPy gives \<open>nan\<close> for the mean and
  the standard deviation of an empty sample and divides by a zero mean without raising:
  \<open>0/0\<close> is \<open>nan\<close>, a positive number over zero is \<open>inf\<close>.
\<close>

definition mean :: "real list \<Rightarrow> real" where
  "mean xs = sum_list xs / real (length xs)"

definition std :: "real list \<Rightarrow> real" where
  "std xs = sqrt (mean (map (\<lambda>x. (x - mean xs)\<^sup>2) xs))"

definition variation :: "real list \<Rightarrow> npfloat" where
  "variation xs =
     (if xs = [] then NaN
      else if mean xs = 0 then (if std xs = 0 then NaN else PosInf)
      else Finite (std xs / mean xs))"

section \<open>The region of interest\<close>

text \<open>
  \<^verbatim>\<open>b1_roi = np.reshape(b1_maps * mask[:, :, np.newaxis], [x * y, n_Tx])\<close>
  \<^verbatim>\<open>b1_roi = b1_roi[b1_roi[:, 0] != 0, :]\<close>

  The mask is built from \<^verbatim>\<open>b1_maps\<close> in every cell, so it has the shape \<^verbatim>\<open>(x, y)\<close> of
  a slice; the model takes it as a predicate on the voxel indices. The product multiplies
  every entry of a voxel by 1 or 0. \<^verbatim>\<open>np.reshape\<close> reads the entries in C order and cuts
  them into rows, and raises ValueError when the sizes differ. The second line raises
  IndexError on an array without columns and keeps the rows whose first entry is not zero.
\<close>

definition grid :: "ndarray3 \<Rightarrow> (nat \<times> nat) list" where
  "grid a = List.product [0..<dim0 a] [0..<dim1 a]"

definition apply_mask :: "ndarray3 \<Rightarrow> (nat \<Rightarrow> nat \<Rightarrow> bool) \<Rightarrow> ndarray3" where
  "apply_mask a msk = a\<lparr>at3 := (\<lambda>i j k. at3 a i j k * of_bool (msk i j))\<rparr>"

definition flat :: "ndarray3 \<Rightarrow> complex list" where
  "flat a = concat (map (\<lambda>(i, j). map (at3 a i j) [0..<dim2 a]) (grid a))"

fun chunks :: "nat \<Rightarrow> nat \<Rightarrow> 'a list \<Rightarrow> 'a list list" where
  "chunks c 0 xs = []"
| "chunks c (Suc r) xs = take c xs # chunks c r (drop c xs)"

definition reshape2 :: "ndarray3 \<Rightarrow> nat \<Rightarrow> nat \<Rightarrow> error + ndarray2" where
  "reshape2 a r c =
     (if dim0 a * dim1 a * dim2 a \<noteq> r * c then Inl ValueError
      else Inr \<lparr>ncols = c, rows = chunks c r (flat a)\<rparr>)"

definition select_rows :: "ndarray2 \<Rightarrow> error + ndarray2" where
  "select_rows a =
     (if ncols a = 0 then Inl IndexError
      else Inr (a\<lparr>rows := filter (\<lambda>r. r ! 0 \<noteq> 0) (rows a)\<rparr>))"

text \<open>
  The number of columns is the literal 8 in the first cell of the complex-shimming notebook
  and \<^verbatim>\<open>n_Tx\<close>, the last axis of \<^verbatim>\<open>b1_maps\<close>, in the later ones.
\<close>

definition b1_roi :: "ndarray3 \<Rightarrow> (nat \<Rightarrow> nat \<Rightarrow> bool) \<Rightarrow> nat \<Rightarrow> error + ndarray2" where
  "b1_roi b1_maps msk c =
     bind_err (reshape2 (apply_mask b1_maps msk) (dim0 b1_maps * dim1 b1_maps) c) select_rows"

text \<open>
  The masks that the notebooks build themselves: \<^verbatim>\<open>mask = b1_maps[:, :, 0] != 0\<close>
  (phase-only shimming) and \<^verbatim>\<open>mask = b1_maps.sum(-1) != 0\<close> (complex shimming).
\<close>

definition mask_first_slice :: "ndarray3 \<Rightarrow> error + (nat \<Rightarrow> nat \<Rightarrow> bool)" where
  "mask_first_slice b1_maps =
     (if dim2 b1_maps = 0 then Inl IndexError else Inr (\<lambda>i j. at3 b1_maps i j 0 \<noteq> 0))"

definition mask_sum :: "ndarray3 \<Rightarrow> nat \<Rightarrow> nat \<Rightarrow> bool" where
  "mask_sum b1_maps = (\<lambda>i j. (\<Sum>k<dim2 b1_maps. at3 b1_maps i j k) \<noteq> 0)"

section \<open>The optional mask of the optimizer\<close>

text \<open>
  Modelled from the spec: the function \<^verbatim>\<open>phase_only_shimming\<close> of the module
  \<^verbatim>\<open>functions\<close>, the one that takes the optional mask, is not among the sources; the
  notebooks call it with a mask and without one. The specification says of the optimizer
  "mask: optional; if omitted, derived as first-element slice is nonzero", and of a mask that
  it is a boolean 2-D array of the spatial shape of a field-map slice. The slice of the
  first element is \<^verbatim>\<open>b1_maps[:, :, 0]\<close>, which NumPy refuses with IndexError on a field
  map without elements; a mask that the caller passes is used as it is.
\<close>

definition first_element_slice :: "ndarray3 \<Rightarrow> error + complex list list" where
  "first_element_slice a =
     (if dim2 a = 0 then Inl IndexError
      else Inr (map (\<lambda>i. map (\<lambda>j. at3 a i j 0) [0..<dim1 a]) [0..<dim0 a]))"

definition nonzero_entries :: "complex list list \<Rightarrow> bool list list" where
  "nonzero_entries s = map (map (\<lambda>z. z \<noteq> 0)) s"

definition mask_used :: "ndarray3 \<Rightarrow> bool list list option \<Rightarrow> error + bool list list" where
  "mask_used b1_maps mask_arg =
     (case mask_arg of
        None \<Rightarrow> bind_err (first_element_slice b1_maps) (\<lambda>s. Inr (nonzero_entries s))
      | Some m \<Rightarrow> Inr m)"

text \<open>The voxels of the field map that a boolean array selects, in C order.\<close>

definition mask_voxels :: "ndarray3 \<Rightarrow> bool list list \<Rightarrow> (nat \<times> nat) list" where
  "mask_voxels a m = filter (\<lambda>(i, j). m ! i ! j) (grid a)"

section \<open>The cost functions\<close>

text \<open>
  \<^verbatim>\<open>def cost_function(weights):\<close>
  \<^verbatim>\<open>    return variation(np.abs(b1_roi @ vector_to_complex(weights)))\<close>

  \<^verbatim>\<open>def cost_function_MLS(weights):\<close>
  \<^verbatim>\<open>    b1_abs = np.abs(b1_roi @ vector_to_complex(weights))\<close>
  \<^verbatim>\<open>    return np.sum((b1_abs - target)**2)\<close>

  The globals \<^verbatim>\<open>b1_roi\<close> and \<^verbatim>\<open>target\<close> are arguments here.
\<close>

definition cost_function :: "ndarray2 \<Rightarrow> real list \<Rightarrow> error + npfloat" where
  "cost_function roi weights =
     bind_err (matmul_2v roi (vector_to_complex weights))
       (\<lambda>b. Inr (variation (map cmod b)))"

definition cost_function_MLS :: "real \<Rightarrow> ndarray2 \<Rightarrow> real list \<Rightarrow> error + real" where
  "cost_function_MLS target roi weights =
     bind_err (matmul_2v roi (vector_to_complex weights))
       (\<lambda>b. Inr (sum_list (map (\<lambda>a. (a - target)\<^sup>2) (map cmod b))))"

text \<open>
  The objective as a function of the field maps and the mask: the region of interest is
  built with \<^verbatim>\<open>n_Tx\<close> columns and handed to the cost function.
\<close>

definition objective_CoV ::
  "ndarray3 \<Rightarrow> (nat \<Rightarrow> nat \<Rightarrow> bool) \<Rightarrow> real list \<Rightarrow> error + npfloat" where
  "objective_CoV b1_maps msk weights =
     bind_err (b1_roi b1_maps msk (dim2 b1_maps)) (\<lambda>roi. cost_function roi weights)"

definition objective_MLS ::
  "real \<Rightarrow> ndarray3 \<Rightarrow> (nat \<Rightarrow> nat \<Rightarrow> bool) \<Rightarrow> real list \<Rightarrow> error + real" where
  "objective_MLS target b1_maps msk weights =
     bind_err (b1_roi b1_maps msk (dim2 b1_maps))
       (\<lambda>roi. cost_function_MLS target roi weights)"

text \<open>
  The first cell of the complex-shimming notebook, up to its cost function:

  \<^verbatim>\<open>mask = b1_maps.sum(-1) != 0\<close>
  \<^verbatim>\<open>weights_sTx = np.ones(8)\<close>
  \<^verbatim>\<open>b1_sTx = (b1_maps @ weights_sTx)\<close>
  \<^verbatim>\<open>b1_roi = np.reshape(b1_maps * mask[:, :, np.newaxis], [x * y, 8])\<close>
  \<^verbatim>\<open>b1_roi = b1_roi[b1_roi[:, 0] != 0, :]\<close>

  An exception in one statement ends the cell. The statements in between (the CP-mode
  weights, which are built with \<^verbatim>\<open>n_Tx\<close> entries, and the call of
  \<^verbatim>\<open>phase_only_shimming\<close>) are left out.
\<close>

definition first_cell_cost :: "ndarray3 \<Rightarrow> real list \<Rightarrow> error + npfloat" where
  "first_cell_cost b1_maps weights =
     bind_err (matmul_3v b1_maps (replicate 8 1))
       (\<lambda>b1_sTx. bind_err (b1_roi b1_maps (mask_sum b1_maps) 8)
          (\<lambda>roi. cost_function roi weights))"

section \<open>The SAR evaluator\<close>

text \<open>
  \<^verbatim>\<open>def max_SAR(weights, vop):\<close>
  \<^verbatim>\<open>    return np.max(np.real(np.matmul(np.matmul(np.conj(weights).T, vop.T), weights)))\<close>

  \<^verbatim>\<open>.T\<close> leaves a one-dimensional array as it is and reverses the axes of a
  three-dimensional one. \<^verbatim>\<open>np.matmul\<close> of a vector and a stack of matrices multiplies the
  vector, as a row, with every matrix \<^verbatim>\<open>a[k]\<close> of the stack and raises ValueError unless
  the vector is as long as the matrices have rows. \<^verbatim>\<open>np.max\<close> of an empty array raises
  ValueError.
\<close>

definition T3 :: "ndarray3 \<Rightarrow> ndarray3" where
  "T3 a = \<lparr>dim0 = dim2 a, dim1 = dim1 a, dim2 = dim0 a, at3 = (\<lambda>k j i. at3 a i j k)\<rparr>"

definition matmul_v3 :: "complex list \<Rightarrow> ndarray3 \<Rightarrow> error + ndarray2" where
  "matmul_v3 v a =
     (if length v \<noteq> dim1 a then Inl ValueError
      else Inr \<lparr>ncols = dim2 a,
                rows = map (\<lambda>k. map (\<lambda>i. (\<Sum>j<dim1 a. v ! j * at3 a k j i)) [0..<dim2 a])
                         [0..<dim0 a]\<rparr>)"

definition np_max :: "real list \<Rightarrow> error + real" where
  "np_max xs = (if xs = [] then Inl ValueError else Inr (Max (set xs)))"

definition max_SAR :: "complex list \<Rightarrow> ndarray3 \<Rightarrow> error + real" where
  "max_SAR weights vop =
     bind_err (matmul_v3 (map cnj weights) (T3 vop))
       (\<lambda>m. bind_err (matmul_2v m weights) (\<lambda>s. np_max (map Re s)))"

text \<open>
  The quantity the book defines as the SAR, \<open>w\<^sup>H Q w\<close>, for the \<open>k\<close>-th matrix
  \<^verbatim>\<open>vop[:, :, k]\<close> of the stack (the matrices lie along the last axis, as the maps of the
  elements do in \<^verbatim>\<open>b1_maps\<close>).
\<close>

definition hermitian_form :: "complex list \<Rightarrow> ndarray3 \<Rightarrow> nat \<Rightarrow> complex" where
  "hermitian_form w vop k =
     (\<Sum>a<length w. \<Sum>b<length w. cnj (w ! a) * at3 vop a b k * w ! b)"

section \<open>Concrete inputs\<close>

text \<open>One voxel, two elements: the first element has no field there, the second has.\<close>

definition b1_dark_first :: ndarray3 where
  "b1_dark_first = \<lparr>dim0 = 1, dim1 = 1, dim2 = 2, at3 = (\<lambda>i j k. [0, 1] ! k)\<rparr>"

text \<open>One voxel, two elements whose fields cancel.\<close>

definition b1_cancel :: ndarray3 where
  "b1_cancel = \<lparr>dim0 = 1, dim1 = 1, dim2 = 2, at3 = (\<lambda>i j k. [1, - 1] ! k)\<rparr>"

text \<open>Two voxels, two elements, all fields real and nonzero.\<close>

definition b1_two :: ndarray3 where
  "b1_two = \<lparr>dim0 = 1, dim1 = 2, dim2 = 2, at3 = (\<lambda>i j k. [[1, 2], [3, 4]] ! j ! k)\<rparr>"

text \<open>
  One Hermitian, positive semidefinite 2 x 2 matrix \<open>[[1, \<i>], [- \<i>, 1]]\<close> as a stack of
  shape \<open>(2, 2, 1)\<close>.
\<close>

definition vop_one :: ndarray3 where
  "vop_one = \<lparr>dim0 = 2, dim1 = 2, dim2 = 1,
              at3 = (\<lambda>a b k. [[1, \<i>], [- \<i>, 1]] ! a ! b)\<rparr>"

text \<open>
  Two voxels, two elements: the first element has no field at the first voxel.
\<close>

definition b1_hole :: ndarray3 where
  "b1_hole = \<lparr>dim0 = 1, dim1 = 2, dim2 = 2, at3 = (\<lambda>i j k. [[0, 1], [3, 4]] ! j ! k)\<rparr>"

text \<open>The mask that selects every voxel, and the one that selects none.\<close>

definition mask_all :: "nat \<Rightarrow> nat \<Rightarrow> bool" where
  "mask_all = (\<lambda>i j. True)"

definition mask_none :: "nat \<Rightarrow> nat \<Rightarrow> bool" where
  "mask_none = (\<lambda>i j. False)"

text \<open>
  The real parameters of the weight vector \<open>c * w\<close>, where \<open>w\<close> is the weight vector that
  \<open>weights\<close> encodes.
\<close>

definition scale_weights :: "complex \<Rightarrow> real list \<Rightarrow> real list" where
  "scale_weights c weights = complex_to_vector (map ((*) c) (vector_to_complex weights))"

text \<open>A region of interest of two voxels and two elements.\<close>

definition roi_two :: ndarray2 where
  "roi_two = \<lparr>ncols = 2, rows = [[1, 2], [3, 4]]\<rparr>"

section \<open>The objective as the specification words it\<close>

text \<open>
  The magnitude of the combined field at a voxel, \<^verbatim>\<open>np.abs(b1_maps @ w)[i, j]\<close>.
\<close>

definition combined_magnitude :: "ndarray3 \<Rightarrow> complex list \<Rightarrow> nat \<times> nat \<Rightarrow> real" where
  "combined_magnitude a w = (\<lambda>(i, j). cmod (\<Sum>k<dim2 a. at3 a i j k * w ! k))"

text \<open>
  The specification restricts both objectives to the mask: the coefficient of variation,
  and the sum of the squared deviations from the target, of the combined magnitude at the
  voxels that the mask selects.
\<close>

definition spec_objective_CoV ::
  "ndarray3 \<Rightarrow> (nat \<Rightarrow> nat \<Rightarrow> bool) \<Rightarrow> complex list \<Rightarrow> npfloat" where
  "spec_objective_CoV a msk w =
     variation (map (combined_magnitude a w) (filter (\<lambda>(i, j). msk i j) (grid a)))"

definition spec_objective_MLS ::
  "real \<Rightarrow> ndarray3 \<Rightarrow> (nat \<Rightarrow> nat \<Rightarrow> bool) \<Rightarrow> complex list \<Rightarrow> real" where
  "spec_objective_MLS target a msk w =
     sum_list (map (\<lambda>v. (combined_magnitude a w v - target)\<^sup>2)
       (filter (\<lambda>(i, j). msk i j) (grid a)))"

section \<open>Theorems\<close>

subsection \<open>Helper lemmas\<close>

lemma chunks_concat:
  "(\<And>l. l \<in> set ls \<Longrightarrow> length l = c) \<Longrightarrow> chunks c (length ls) (concat ls) = ls"
  by (induction ls) simp_all

lemma length_grid: "length (grid a) = dim0 a * dim1 a"
  by (simp add: grid_def)

lemma flat_rows:
  "chunks (dim2 a) (dim0 a * dim1 a) (flat a)
     = map (\<lambda>(i, j). map (at3 a i j) [0..<dim2 a]) (grid a)"
proof -
  let ?ls = "map (\<lambda>(i, j). map (at3 a i j) [0..<dim2 a]) (grid a)"
  have "chunks (dim2 a) (length ?ls) (concat ?ls) = ?ls"
    by (rule chunks_concat) auto
  then show ?thesis
    by (simp add: flat_def length_grid)
qed

lemma select_masked:
  assumes "0 < n"
  shows "filter (\<lambda>r. r ! 0 \<noteq> 0)
           (map (\<lambda>(i, j). map (\<lambda>k. at3 a i j k * of_bool (msk i j)) [0..<n]) g)
         = map (\<lambda>(i, j). map (at3 a i j) [0..<n])
             (filter (\<lambda>(i, j). msk i j \<and> at3 a i j 0 \<noteq> 0) g)"
proof (induction g)
  case Nil
  show ?case by simp
next
  case (Cons p g)
  obtain i j where p: "p = (i, j)" by (cases p)
  show ?case
    using assms Cons.IH by (simp add: p)
qed

lemma b1_roi_rows:
  assumes "0 < dim2 a"
  shows "b1_roi a msk (dim2 a) =
           Inr \<lparr>ncols = dim2 a,
                rows = map (\<lambda>(i, j). map (at3 a i j) [0..<dim2 a])
                         (filter (\<lambda>(i, j). msk i j \<and> at3 a i j 0 \<noteq> 0) (grid a))\<rparr>"
proof -
  let ?n = "dim2 a"
  let ?m = "apply_mask a msk"
  have dims: "dim0 ?m = dim0 a" "dim1 ?m = dim1 a" "dim2 ?m = ?n" "grid ?m = grid a"
    by (simp_all add: apply_mask_def grid_def)
  have at: "at3 ?m = (\<lambda>i j k. at3 a i j k * of_bool (msk i j))"
    by (simp add: apply_mask_def)
  have rs: "chunks ?n (dim0 a * dim1 a) (flat ?m)
              = map (\<lambda>(i, j). map (\<lambda>k. at3 a i j k * of_bool (msk i j)) [0..<?n]) (grid a)"
    using flat_rows [of ?m] by (simp add: dims at)
  show ?thesis
    using assms
    by (simp add: b1_roi_def reshape2_def select_rows_def bind_err_def dims rs select_masked)
qed

lemma v2c_ones: "vector_to_complex [1, 1, 0, 0] = [1, 1]"
  by (simp add: vector_to_complex_def)

lemma b1_dark_first_sel:
  "dim0 b1_dark_first = 1" "dim1 b1_dark_first = 1" "dim2 b1_dark_first = 2"
  "at3 b1_dark_first i j k = [0, 1] ! k"
  by (simp_all add: b1_dark_first_def)

lemma b1_cancel_sel:
  "dim0 b1_cancel = 1" "dim1 b1_cancel = 1" "dim2 b1_cancel = 2"
  "at3 b1_cancel i j k = [1, - 1] ! k"
  by (simp_all add: b1_cancel_def)

lemma b1_two_sel:
  "dim0 b1_two = 1" "dim1 b1_two = 2" "dim2 b1_two = 2"
  "at3 b1_two i j k = [[1, 2], [3, 4]] ! j ! k"
  by (simp_all add: b1_two_def)

lemma grid_b1_dark_first: "grid b1_dark_first = [(0, 0)]"
  by (simp add: grid_def b1_dark_first_sel)

lemma grid_b1_two: "grid b1_two = [(0, 0), (0, 1)]"
  by (simp add: grid_def b1_two_sel numeral_2_eq_2)

lemma polar_roundtrip: "of_real (cmod z) * cis (Arg z) = z"
  using rcis_cmod_Arg [of z] by (simp add: rcis_def)

lemma map2_polar: "map2 (\<lambda>r p. of_real r * cis p) (map cmod w) (map Arg w) = w"
  by (induction w) (simp_all add: polar_roundtrip)

lemma v2c_c2v: "vector_to_complex (complex_to_vector w) = w"
  by (simp add: vector_to_complex_def complex_to_vector_def map2_polar)

lemma mean_scale: "mean (map ((*) a) xs) = a * mean xs"
  by (simp add: mean_def sum_list_const_mult)

lemma std_scale:
  assumes "0 \<le> a"
  shows "std (map ((*) a) xs) = a * std xs"
proof -
  have "map (\<lambda>x. (x - mean (map ((*) a) xs))\<^sup>2) (map ((*) a) xs)
          = map ((*) (a\<^sup>2)) (map (\<lambda>x. (x - mean xs)\<^sup>2) xs)"
    by (simp add: mean_scale o_def power_mult_distrib [symmetric] right_diff_distrib)
  then have "std (map ((*) a) xs) = sqrt (a\<^sup>2 * mean (map (\<lambda>x. (x - mean xs)\<^sup>2) xs))"
    by (simp only: std_def mean_scale)
  also have "\<dots> = a * std xs"
    using assms by (simp add: real_sqrt_mult std_def)
  finally show ?thesis .
qed

lemma variation_scale:
  assumes "0 < a"
  shows "variation (map ((*) a) xs) = variation xs"
  using assms by (simp add: variation_def mean_scale std_scale)

lemma matmul_2v_scale:
  "matmul_2v roi (map ((*) c) w) = map_sum id (map ((*) c)) (matmul_2v roi w)"
proof (cases "ncols roi = length w")
  case False
  then show ?thesis by (simp add: matmul_2v_def)
next
  case True
  have "(\<Sum>k<length w. r ! k * (c * w ! k)) = c * (\<Sum>k<length w. r ! k * w ! k)" for r
    by (simp add: sum_distrib_left mult.left_commute)
  then show ?thesis
    using True by (simp add: matmul_2v_def)
qed

lemma cost_scale:
  assumes "c \<noteq> 0" and "vector_to_complex weights' = map ((*) c) (vector_to_complex weights)"
  shows "cost_function roi weights' = cost_function roi weights"
proof (cases "matmul_2v roi (vector_to_complex weights)")
  case (Inl e)
  then show ?thesis
    by (simp add: cost_function_def assms(2) matmul_2v_scale bind_err_def)
next
  case (Inr b)
  have "map cmod (map ((*) c) b) = map ((*) (cmod c)) (map cmod b)"
    by (simp add: norm_mult)
  moreover have "0 < cmod c"
    using assms(1) by simp
  ultimately have "variation (map cmod (map ((*) c) b)) = variation (map cmod b)"
    by (simp only: variation_scale)
  then show ?thesis
    using Inr by (simp add: cost_function_def assms(2) matmul_2v_scale bind_err_def)
qed


lemma variation_zeros:
  assumes "\<And>x. x \<in> set xs \<Longrightarrow> x = 0"
  shows "variation xs = NaN"
proof -
  have xs: "xs = replicate (length xs) 0"
    using assms by (simp add: replicate_length_same)
  have m: "mean xs = 0"
    by (subst xs) (simp add: mean_def sum_list_replicate)
  have "map (\<lambda>x. (x - mean xs)\<^sup>2) xs = replicate (length xs) 0"
    by (subst (2) xs) (simp add: m map_replicate_const)
  then have "std xs = 0"
    by (simp add: std_def mean_def sum_list_replicate)
  with m show ?thesis
    by (simp add: variation_def)
qed

lemma cost_zero_weights:
  assumes "\<And>k. k < length (vector_to_complex weights) \<Longrightarrow> vector_to_complex weights ! k = 0"
  shows "cost_function roi weights \<noteq> Inr (Finite v)"
proof (cases "ncols roi = length (vector_to_complex weights)")
  case False
  then show ?thesis
    by (simp add: cost_function_def matmul_2v_def bind_err_def)
next
  case True
  have "(\<Sum>k<length (vector_to_complex weights). r ! k * vector_to_complex weights ! k) = 0" for r
    using assms by simp
  then have "cost_function roi weights = Inr (variation (map (\<lambda>r. 0) (rows roi)))"
    using True by (simp add: cost_function_def matmul_2v_def bind_err_def o_def)
  moreover have "variation (map (\<lambda>r. 0) (rows roi)) = NaN"
    by (rule variation_zeros) auto
  ultimately show ?thesis by simp
qed

lemma vop_one_sel:
  "dim0 vop_one = 2" "dim1 vop_one = 2" "dim2 vop_one = 1"
  "at3 vop_one a b k = [[1, \<i>], [- \<i>, 1]] ! a ! b"
  by (simp_all add: vop_one_def)

lemma max_SAR_computes:
  assumes "dim0 vop = length w" and "dim1 vop = length w" and "0 < dim2 vop"
  shows "max_SAR w vop =
           Inr (Max ((\<lambda>k. Re (\<Sum>i<length w. (\<Sum>j<length w. cnj (w ! j) * at3 vop i j k) * w ! i))
                       ` {..<dim2 vop}))"
proof -
  have "(\<Sum>j<length w. map cnj w ! j * at3 vop i j k) = (\<Sum>j<length w. cnj (w ! j) * at3 vop i j k)"
    for i k
    by (rule sum.cong) simp_all
  then have m: "matmul_v3 (map cnj w) (T3 vop) =
      Inr \<lparr>ncols = length w,
           rows = map (\<lambda>k. map (\<lambda>i. (\<Sum>j<length w. cnj (w ! j) * at3 vop i j k)) [0..<length w])
                    [0..<dim2 vop]\<rparr>"
    using assms by (simp add: matmul_v3_def T3_def)
  have "(\<Sum>i<length w. map f [0..<length w] ! i * w ! i) = (\<Sum>i<length w. f i * w ! i)"
    for f :: "nat \<Rightarrow> complex"
    by (rule sum.cong) simp_all
  then have "max_SAR w vop =
      np_max (map (\<lambda>k. Re (\<Sum>i<length w. (\<Sum>j<length w. cnj (w ! j) * at3 vop i j k) * w ! i))
                [0..<dim2 vop])"
    by (simp add: max_SAR_def m bind_err_def matmul_2v_def o_def)
  then show ?thesis
    using assms(3) by (simp add: np_max_def atLeast0LessThan)
qed

lemma max_SAR_symmetric:
  assumes "dim0 vop = length w" and "dim1 vop = length w" and "0 < dim2 vop"
    and sym: "\<And>a b k. at3 vop a b k = at3 vop b a k"
  shows "max_SAR w vop = Inr (Max ((\<lambda>k. Re (hermitian_form w vop k)) ` {..<dim2 vop}))"
proof -
  have "(\<Sum>i<length w. (\<Sum>j<length w. cnj (w ! j) * at3 vop i j k) * w ! i)
          = hermitian_form w vop k" for k
  proof -
    have "(\<Sum>i<length w. (\<Sum>j<length w. cnj (w ! j) * at3 vop i j k) * w ! i)
            = (\<Sum>i<length w. \<Sum>j<length w. cnj (w ! j) * at3 vop j i k * w ! i)"
      by (subst sym) (simp add: sum_distrib_right)
    also have "\<dots> = (\<Sum>j<length w. \<Sum>i<length w. cnj (w ! j) * at3 vop j i k * w ! i)"
      by (rule sum.swap)
    finally show ?thesis
      by (simp add: hermitian_form_def)
  qed
  then show ?thesis
    using max_SAR_computes [OF assms(1-3)] by simp
qed

lemma in_grid: "(i, j) \<in> set (grid a) \<longleftrightarrow> i < dim0 a \<and> j < dim1 a"
  by (auto simp: grid_def)

lemma mask_voxels_nonzero:
  "mask_voxels a (nonzero_entries (map (\<lambda>i. map (\<lambda>j. at3 a i j 0) [0..<dim1 a]) [0..<dim0 a]))
     = filter (\<lambda>(i, j). at3 a i j 0 \<noteq> 0) (grid a)"
  unfolding mask_voxels_def nonzero_entries_def
  by (rule filter_cong) (auto simp: in_grid)

lemma b1_hole_sel:
  "dim0 b1_hole = 1" "dim1 b1_hole = 2" "dim2 b1_hole = 2"
  "at3 b1_hole i j k = [[0, 1], [3, 4]] ! j ! k"
  by (simp_all add: b1_hole_def)

lemma grid_b1_hole: "grid b1_hole = [(0, 0), (0, 1)]"
  by (simp add: grid_def b1_hole_sel numeral_2_eq_2)

subsection \<open>The claims\<close>

text \<open>
  Claim C8. Encoding a complex weight vector of any length with \<open>complex_to_vector\<close> and
  decoding the result with \<open>vector_to_complex\<close> gives the vector back, over the exact
  reals.
\<close>

theorem vector_to_complex_complex_to_vector:
  "vector_to_complex (complex_to_vector w) = w"
  by (simp add: vector_to_complex_def complex_to_vector_def map2_polar)

text \<open>
  Claim C7. Multiplying every weight by the same phase factor \<open>cis \<theta>\<close> leaves the
  magnitude of the combined field \<^verbatim>\<open>b1_maps @ w\<close> unchanged at every voxel (and an
  ill-shaped product fails as before). It holds for every weight vector, those of unit
  magnitude per element among them.
\<close>

theorem global_phase_invariance:
  "map_sum id (map (map cmod)) (matmul_3v b1_maps (map (\<lambda>z. cis \<theta> * z) w))
     = map_sum id (map (map cmod)) (matmul_3v b1_maps w)"
proof (cases "dim2 b1_maps = length w")
  case False
  then show ?thesis by (simp add: matmul_3v_def)
next
  case True
  have "(\<Sum>k<length w. at3 b1_maps i j k * (cis \<theta> * w ! k))
          = cis \<theta> * (\<Sum>k<length w. at3 b1_maps i j k * w ! k)" for i j
    by (simp add: sum_distrib_left mult.left_commute)
  then show ?thesis
    using True by (simp add: matmul_3v_def norm_mult)
qed

text \<open>
  Claim C2, as amended. With at least one element and a weight vector of the right length,
  both objectives are evaluated over exactly the voxels that the mask selects and at which
  the first element's field is not zero: each of these voxels contributes the magnitude of
  its combined field, and no other voxel contributes.
\<close>

theorem objective_over_roi_voxels:
  assumes "0 < dim2 b1_maps" and "length (vector_to_complex weights) = dim2 b1_maps"
  shows "objective_CoV b1_maps msk weights =
           Inr (variation (map (combined_magnitude b1_maps (vector_to_complex weights))
                  (filter (\<lambda>(i, j). msk i j \<and> at3 b1_maps i j 0 \<noteq> 0) (grid b1_maps))))
       \<and> objective_MLS target b1_maps msk weights =
           Inr (sum_list (map (\<lambda>v. (combined_magnitude b1_maps (vector_to_complex weights) v - target)\<^sup>2)
                  (filter (\<lambda>(i, j). msk i j \<and> at3 b1_maps i j 0 \<noteq> 0) (grid b1_maps))))"
proof -
  let ?w = "vector_to_complex weights"
  have roi: "b1_roi b1_maps msk (dim2 b1_maps) =
           Inr \<lparr>ncols = dim2 b1_maps,
                rows = map (\<lambda>(i, j). map (at3 b1_maps i j) [0..<dim2 b1_maps])
                         (filter (\<lambda>(i, j). msk i j \<and> at3 b1_maps i j 0 \<noteq> 0) (grid b1_maps))\<rparr>"
    using assms(1) by (rule b1_roi_rows)
  show ?thesis
    using assms
    by (simp add: objective_CoV_def objective_MLS_def cost_function_def cost_function_MLS_def
        roi bind_err_def matmul_2v_def combined_magnitude_def o_def case_prod_unfold)
qed

theorem objective_over_roi_voxels_witness:
  "objective_CoV b1_two mask_all [1, 1, 0, 0] = Inr (variation [3, 7])
   \<and> objective_MLS 60 b1_two mask_all [1, 1, 0, 0] = Inr ((3 - 60)\<^sup>2 + (7 - 60)\<^sup>2)"
proof -
  have n: "0 < dim2 b1_two" and l: "length (vector_to_complex [1, 1, 0, 0]) = dim2 b1_two"
    by (simp_all add: v2c_ones b1_two_sel)
  have f: "filter (\<lambda>(i, j). mask_all i j \<and> at3 b1_two i j 0 \<noteq> 0) (grid b1_two) = [(0, 0), (0, 1)]"
    by (simp add: grid_b1_two mask_all_def b1_two_sel)
  have c: "combined_magnitude b1_two [1, 1] (0, 0) = 3"
    "combined_magnitude b1_two [1, 1] (0, Suc 0) = 7"
    by (simp_all add: combined_magnitude_def b1_two_sel lessThan_Suc numeral_2_eq_2)
  show ?thesis
    using objective_over_roi_voxels [OF n l, of mask_all 60] by (simp add: v2c_ones f c)
qed

text \<open>
  Claim C2 as stated fails: a voxel that the mask selects, and at which the first element
  has no field, is left out. On one such voxel the code's coefficient of variation is
  \<open>nan\<close> and its squared deviation 0, where the objectives over the masked voxels are 0 and
  \<open>59\<^sup>2\<close>.
\<close>

theorem masked_voxel_dropped:
  "objective_CoV b1_dark_first mask_all [1, 1, 0, 0] = Inr NaN
   \<and> spec_objective_CoV b1_dark_first mask_all (vector_to_complex [1, 1, 0, 0]) = Finite 0
   \<and> objective_MLS 60 b1_dark_first mask_all [1, 1, 0, 0] = Inr 0
   \<and> spec_objective_MLS 60 b1_dark_first mask_all (vector_to_complex [1, 1, 0, 0]) = 3481"
proof -
  have roi: "b1_roi b1_dark_first mask_all 2 = Inr \<lparr>ncols = 2, rows = []\<rparr>"
    using b1_roi_rows [of b1_dark_first mask_all]
    by (simp add: grid_b1_dark_first b1_dark_first_sel)
  have cm: "combined_magnitude b1_dark_first [1, 1] (0, 0) = 1"
    by (simp add: combined_magnitude_def b1_dark_first_sel lessThan_Suc numeral_2_eq_2)
  have code: "objective_CoV b1_dark_first mask_all [1, 1, 0, 0] = Inr NaN"
    "objective_MLS 60 b1_dark_first mask_all [1, 1, 0, 0] = Inr 0"
    by (simp_all add: objective_CoV_def objective_MLS_def b1_dark_first_sel roi bind_err_def
        cost_function_def cost_function_MLS_def matmul_2v_def v2c_ones variation_def)
  have spec: "spec_objective_CoV b1_dark_first mask_all [1, 1] = Finite 0"
    "spec_objective_MLS 60 b1_dark_first mask_all [1, 1] = 3481"
    by (simp_all add: spec_objective_CoV_def spec_objective_MLS_def grid_b1_dark_first
        mask_all_def cm variation_def mean_def std_def)
  show ?thesis
    by (simp add: code spec v2c_ones)
qed

text \<open>
  Claim C3, as amended. When the mask selects no voxel (and the field map has at least one
  element and the weight vector the right length), nothing is raised: the coefficient of
  variation that the optimizer minimizes is \<open>nan\<close>, and the squared-deviation objective
  is 0.
\<close>

theorem empty_mask_gives_nan:
  assumes "0 < dim2 b1_maps" and "length (vector_to_complex weights) = dim2 b1_maps"
    and "filter (\<lambda>(i, j). msk i j) (grid b1_maps) = []"
  shows "objective_CoV b1_maps msk weights = Inr NaN
       \<and> objective_MLS target b1_maps msk weights = Inr 0"
proof -
  have "filter (\<lambda>(i, j). msk i j \<and> at3 b1_maps i j 0 \<noteq> 0) (grid b1_maps) = []"
    using assms(3) by (auto simp: filter_empty_conv)
  then have "b1_roi b1_maps msk (dim2 b1_maps) = Inr \<lparr>ncols = dim2 b1_maps, rows = []\<rparr>"
    using b1_roi_rows [OF assms(1), of msk] by simp
  then show ?thesis
    using assms(2)
    by (simp add: objective_CoV_def objective_MLS_def cost_function_def cost_function_MLS_def
        bind_err_def matmul_2v_def variation_def)
qed

theorem empty_mask_gives_nan_witness:
  "objective_CoV b1_cancel mask_none [1, 1, 0, 0] = Inr NaN
   \<and> objective_MLS 60 b1_cancel mask_none [1, 1, 0, 0] = Inr 0"
proof -
  have n: "0 < dim2 b1_cancel" and l: "length (vector_to_complex [1, 1, 0, 0]) = dim2 b1_cancel"
    by (simp_all add: v2c_ones b1_cancel_sel)
  have e: "filter (\<lambda>(i, j). mask_none i j) (grid b1_cancel) = []"
    by (simp add: mask_none_def)
  show ?thesis
    using empty_mask_gives_nan [OF n l e] by simp
qed

text \<open>
  Claim C3 as stated fails: with the empty mask on a two-voxel field map the cost function
  returns \<open>nan\<close> and raises no error.
\<close>

theorem empty_mask_no_error:
  "objective_CoV b1_two mask_none [1, 1, 0, 0] = Inr NaN"
proof -
  have "b1_roi b1_two mask_none 2 = Inr \<lparr>ncols = 2, rows = []\<rparr>"
    using b1_roi_rows [of b1_two mask_none]
    by (simp add: grid_b1_two b1_two_sel mask_none_def)
  then show ?thesis
    by (simp add: objective_CoV_def b1_two_sel bind_err_def cost_function_def matmul_2v_def
        v2c_ones variation_def)
qed

text \<open>
  Claim C4. When the mask argument is omitted, the mask that the optimizer uses is the
  boolean array of the shape of a slice whose entry at a voxel says that the first
  element's field is not zero there, so the voxels it selects are exactly the voxels of the
  field map where the first-element slice is not zero (on a field map without elements the
  slice does not exist and IndexError is raised). They are the voxels that the explicit mask
  of the phase-only notebook, \<^verbatim>\<open>b1_maps[:, :, 0] != 0\<close>, selects.
\<close>

theorem omitted_mask_first_slice_nonzero:
  "mask_used b1_maps None =
     (if dim2 b1_maps = 0 then Inl IndexError
      else Inr (map (\<lambda>i. map (\<lambda>j. at3 b1_maps i j 0 \<noteq> 0) [0..<dim1 b1_maps]) [0..<dim0 b1_maps]))
   \<and> map_sum id (mask_voxels b1_maps) (mask_used b1_maps None) =
     (if dim2 b1_maps = 0 then Inl IndexError
      else Inr (filter (\<lambda>(i, j). at3 b1_maps i j 0 \<noteq> 0) (grid b1_maps)))
   \<and> map_sum id (\<lambda>p. filter (\<lambda>(i, j). p i j) (grid b1_maps)) (mask_first_slice b1_maps)
       = map_sum id (mask_voxels b1_maps) (mask_used b1_maps None)"
proof (cases "dim2 b1_maps = 0")
  case True
  then show ?thesis
    by (simp add: mask_used_def first_element_slice_def bind_err_def mask_first_slice_def)
next
  case False
  let ?s = "map (\<lambda>i. map (\<lambda>j. at3 b1_maps i j 0) [0..<dim1 b1_maps]) [0..<dim0 b1_maps]"
  have u: "mask_used b1_maps None = Inr (nonzero_entries ?s)"
    using False by (simp add: mask_used_def first_element_slice_def bind_err_def)
  have e: "nonzero_entries ?s
             = map (\<lambda>i. map (\<lambda>j. at3 b1_maps i j 0 \<noteq> 0) [0..<dim1 b1_maps]) [0..<dim0 b1_maps]"
    by (simp add: nonzero_entries_def o_def)
  have v: "mask_voxels b1_maps (nonzero_entries ?s)
             = filter (\<lambda>(i, j). at3 b1_maps i j 0 \<noteq> 0) (grid b1_maps)"
    by (rule mask_voxels_nonzero)
  show ?thesis
    using False by (simp add: u v mask_first_slice_def) (simp add: e)
qed

theorem omitted_mask_first_slice_nonzero_witness:
  "mask_used b1_hole None = Inr [[False, True]]
   \<and> map_sum id (mask_voxels b1_hole) (mask_used b1_hole None) = Inr [(0, 1)]"
proof -
  have u: "[0..<2] = [0, Suc 0]"
    by (simp add: numeral_2_eq_2)
  have f: "filter (\<lambda>(i, j). at3 b1_hole i j 0 \<noteq> 0) (grid b1_hole) = [(0, 1)]"
    by (simp add: grid_b1_hole b1_hole_sel)
  have n: "dim2 b1_hole \<noteq> 0"
    by (simp add: b1_hole_sel)
  note t = omitted_mask_first_slice_nonzero [of b1_hole]
  have "mask_used b1_hole None = Inr [[False, True]]"
    using t [THEN conjunct1] by (simp add: b1_hole_sel u)
  moreover have "map_sum id (mask_voxels b1_hole) (mask_used b1_hole None) = Inr [(0, 1)]"
    using t [THEN conjunct2, THEN conjunct1] by (simp only: n f if_False)
  ultimately show ?thesis
    by simp
qed

text \<open>
  Claim C9. When the weight vector is not as long as the field map has elements, the
  combined field \<^verbatim>\<open>b1_maps @ w\<close> raises ValueError, both objectives raise (IndexError
  when the field map has no element at all, ValueError otherwise), and so does the first
  cell with its literal 8. The error is the result: nothing catches it or tries again.
\<close>

theorem length_mismatch_fails:
  assumes "length w \<noteq> dim2 b1_maps" and "vector_to_complex weights = w"
  shows "matmul_3v b1_maps w = Inl ValueError
       \<and> objective_CoV b1_maps msk weights
           = Inl (if dim2 b1_maps = 0 then IndexError else ValueError)
       \<and> objective_MLS target b1_maps msk weights
           = Inl (if dim2 b1_maps = 0 then IndexError else ValueError)
       \<and> first_cell_cost b1_maps weights = Inl ValueError"
proof -
  have m3: "matmul_3v b1_maps w = Inl ValueError"
    using assms(1) by (simp add: matmul_3v_def)
  have ob: "objective_CoV b1_maps msk weights
              = Inl (if dim2 b1_maps = 0 then IndexError else ValueError)
          \<and> objective_MLS target b1_maps msk weights
              = Inl (if dim2 b1_maps = 0 then IndexError else ValueError)"
  proof (cases "dim2 b1_maps = 0")
    case True
    then have "b1_roi b1_maps msk (dim2 b1_maps) = Inl IndexError"
      by (simp add: b1_roi_def reshape2_def select_rows_def bind_err_def apply_mask_def)
    then show ?thesis
      using True by (simp add: objective_CoV_def objective_MLS_def bind_err_def)
  next
    case False
    then have "0 < dim2 b1_maps" by simp
    from b1_roi_rows [OF this, of msk] show ?thesis
      using assms False
      by (simp add: objective_CoV_def objective_MLS_def cost_function_def
          cost_function_MLS_def bind_err_def matmul_2v_def)
  qed
  have fc: "first_cell_cost b1_maps weights = Inl ValueError"
  proof (cases "dim2 b1_maps = 8")
    case False
    then show ?thesis
      by (simp add: first_cell_cost_def matmul_3v_def bind_err_def)
  next
    case True
    then have "0 < dim2 b1_maps" by simp
    from b1_roi_rows [OF this, of "mask_sum b1_maps"] show ?thesis
      using assms True
      by (simp add: first_cell_cost_def matmul_3v_def cost_function_def bind_err_def
          matmul_2v_def)
  qed
  show ?thesis
    using m3 ob fc by simp
qed

theorem length_mismatch_fails_witness:
  "matmul_3v b1_two [1] = Inl ValueError
   \<and> objective_CoV b1_two mask_all [1, 0] = Inl ValueError
   \<and> objective_MLS 60 b1_two mask_all [1, 0] = Inl ValueError
   \<and> first_cell_cost b1_two [1, 0] = Inl ValueError"
proof -
  have v: "vector_to_complex [1, 0] = [1]"
    by (simp add: vector_to_complex_def)
  have l: "length [1 :: complex] \<noteq> dim2 b1_two"
    by (simp add: b1_two_sel)
  show ?thesis
    using length_mismatch_fails [OF l v, of mask_all 60] by (simp add: b1_two_sel)
qed

text \<open>
  Claim C10. For a nonzero complex scalar \<open>c\<close>, the coefficient-of-variation cost function
  has the same value at the parameters of \<open>c * w\<close> as at those of \<open>w\<close> (an error or a
  \<open>nan\<close> on one side is the same error or \<open>nan\<close> on the other). Where the value is a
  finite number and \<open>c\<close> is not 1 the two parameter vectors differ, so no point with a finite
  cost is the only one with that cost, and a minimizer is never unique.
\<close>

theorem cov_scale_invariant:
  assumes "c \<noteq> 0"
  shows "cost_function roi (scale_weights c weights) = cost_function roi weights
       \<and> (c \<noteq> 1 \<and> cost_function roi weights = Inr (Finite v)
            \<longrightarrow> scale_weights c weights \<noteq> weights)"
proof -
  have dec: "vector_to_complex (scale_weights c weights) = map ((*) c) (vector_to_complex weights)"
    by (simp add: scale_weights_def v2c_c2v)
  have inv: "cost_function roi (scale_weights c weights) = cost_function roi weights"
    using assms dec by (rule cost_scale)
  have "scale_weights c weights \<noteq> weights"
    if c1: "c \<noteq> 1" and fin: "cost_function roi weights = Inr (Finite v)"
  proof
    assume "scale_weights c weights = weights"
    with dec have eq: "vector_to_complex weights = map ((*) c) (vector_to_complex weights)"
      by simp
    have "vector_to_complex weights ! k = 0" if "k < length (vector_to_complex weights)" for k
    proof -
      have "vector_to_complex weights ! k = c * vector_to_complex weights ! k"
        using that by (subst eq) simp
      with c1 show ?thesis by simp
    qed
    then have "cost_function roi weights \<noteq> Inr (Finite v)"
      by (rule cost_zero_weights)
    with fin show False by simp
  qed
  with inv show ?thesis by simp
qed

theorem cov_scale_invariant_witness:
  "cost_function roi_two (scale_weights 2 [1, 1, 0, 0]) = cost_function roi_two [1, 1, 0, 0]
   \<and> scale_weights 2 [1, 1, 0, 0] \<noteq> [1, 1, 0, 0]"
proof -
  have c: "(2 :: complex) \<noteq> 0"
    by simp
  have "mean [3, 7] = 5"
    by (simp add: mean_def)
  then have "variation [3, 7] = Finite (2 / 5)"
    by (simp add: variation_def std_def mean_def)
  then have "cost_function roi_two [1, 1, 0, 0] = Inr (Finite (2 / 5))"
    by (simp add: cost_function_def roi_two_def matmul_2v_def bind_err_def v2c_ones
        lessThan_Suc numeral_2_eq_2)
  then show ?thesis
    using cov_scale_invariant [OF c, of roi_two "[1, 1, 0, 0]" "2 / 5"] by simp
qed

text \<open>
  Claim C1 fails on the code. The book defines the SAR as \<open>w\<^sup>H Q w\<close>; \<^verbatim>\<open>vop.T\<close> brings
  the stack axis to the front and transposes every matrix with it, so \<open>max_SAR\<close> takes the
  maximum of \<open>Re (w\<^sup>H Q\<^sup>T w)\<close> (lemma \<open>max_SAR_computes\<close>), which is the claimed
  value for symmetric matrices (lemma \<open>max_SAR_symmetric\<close>) and not for Hermitian ones: for
  the positive semidefinite \<open>Q = [[1, \<i>], [- \<i>, 1]]\<close> and \<open>w = [1, \<i>]\<close> the code
  returns 4 and \<open>w\<^sup>H Q w\<close> is 0.
\<close>

theorem max_SAR_transposes_vop:
  "max_SAR [1, \<i>] vop_one = Inr 4 \<and> Re (hermitian_form [1, \<i>] vop_one 0) = 0"
proof -
  have "max_SAR [1, \<i>] vop_one = Inr 4"
    by (simp add: max_SAR_def matmul_v3_def T3_def vop_one_sel matmul_2v_def np_max_def
        bind_err_def lessThan_Suc numeral_2_eq_2)
  moreover have "Re (hermitian_form [1, \<i>] vop_one 0) = 0"
    by (simp add: hermitian_form_def vop_one_sel lessThan_Suc numeral_2_eq_2)
  ultimately show ?thesis by simp
qed

end
